theory Spec2Isabelle
  imports Main "HOL-Library.AList" "HOL-Library.DAList"
begin

section \<open>The inventory system of \<^verbatim>\<open>inventory_system.py\<close>\<close>

text \<open>
  The module keeps one global dictionary \<^verbatim>\<open>stock_data\<close> from item names to quantities,
  loads it from and saves it to a JSON file, and logs every operation. The embedding
  passes the global state explicitly: the dictionary, the files the module can reach, and
  the records handed to \<^verbatim>\<open>logging\<close>. Every \<^verbatim>\<open>raise\<close> of the source is a value
  \<open>Inl\<close> of a sum type, and every \<^verbatim>\<open>except\<close> clause is a case distinction on it.
\<close>

subsection \<open>Python values and exceptions\<close>

text \<open>
  The arguments \<^verbatim>\<open>item\<close> and \<^verbatim>\<open>qty\<close> are dynamically typed. The declared types are
  \<^verbatim>\<open>str\<close> and \<^verbatim>\<open>Union[int, str]\<close>, but nothing stops a caller from passing another
  value (\<^verbatim>\<open>main\<close> passes an integer as item name), so the values are integers, strings,
  floats, booleans and \<^verbatim>\<open>None\<close>.

  A float is finite, infinite or a NaN. \<open>Finite m k\<close> is the number \<open>m / 2 ^ k\<close>; every
  finite IEEE double has this form (3.5 is \<open>Finite 7 1\<close>, -0.5 is \<open>Finite (- 1) 1\<close>).
  \<open>Infinite\<close> stands for the infinity of either sign. A string is a sequence of code
  points below 256.
\<close>

datatype pyfloat = Finite int nat | Infinite | NaN

datatype pyval = PyInt int | PyStr string | PyFloat pyfloat | PyBool bool | PyNone

datatype exn =
  TypeError | ValueError | OverflowError | KeyError | FileNotFoundError | JSONDecodeError
  | PermissionError

subsection \<open>\<^verbatim>\<open>int(qty)\<close>\<close>

text \<open>
  Python's \<^verbatim>\<open>int(s)\<close> on a string, base 10: white space around the literal is stripped,
  one sign is allowed, and single underscores may separate digits. Anything else
  (\<^verbatim>\<open>"ten"\<close>, \<^verbatim>\<open>"3.5"\<close>, \<^verbatim>\<open>""\<close>) raises \<^verbatim>\<open>ValueError\<close>. Among the code points below
  256 the white space that \<^verbatim>\<open>int\<close> strips is U+0009 to U+000D, U+0020, U+0085 and
  U+00A0 (the separators U+001C to U+001F are white space for \<^verbatim>\<open>str.isspace\<close> but not
  for \<^verbatim>\<open>int\<close>), and the decimal digits are \<^verbatim>\<open>0\<close> to \<^verbatim>\<open>9\<close>. The interpreter's limit on
  the number of digits is not modelled.
\<close>

definition is_space :: "char \<Rightarrow> bool" where
  "is_space c \<longleftrightarrow>
     c \<in> set [CHR 0x09, CHR 0x0A, CHR 0x0B, CHR 0x0C, CHR 0x0D, CHR 0x20, CHR 0x85, CHR 0xA0]"

definition strip :: "string \<Rightarrow> string" where
  "strip s = rev (dropWhile is_space (rev (dropWhile is_space s)))"

definition digit_val :: "char \<Rightarrow> nat option" where
  "digit_val c =
     map_of [(CHR ''0'', 0), (CHR ''1'', 1), (CHR ''2'', 2), (CHR ''3'', 3), (CHR ''4'', 4),
             (CHR ''5'', 5), (CHR ''6'', 6), (CHR ''7'', 7), (CHR ''8'', 8), (CHR ''9'', 9)] c"

fun digits :: "string \<Rightarrow> nat list option" where
  "digits [] = None"
| "digits [c] = map_option (\<lambda>d. [d]) (digit_val c)"
| "digits (c # c' # cs) =
     (case digit_val c of
        None \<Rightarrow> None
      | Some d \<Rightarrow> map_option ((#) d) (if c' = CHR ''_'' then digits cs else digits (c' # cs)))"

definition nat_of_digits :: "nat list \<Rightarrow> nat" where
  "nat_of_digits ds = foldl (\<lambda>a d. 10 * a + d) 0 ds"

definition int_of_str :: "string \<Rightarrow> int option" where
  "int_of_str s =
     (case strip s of
        [] \<Rightarrow> None
      | c # cs \<Rightarrow>
          if c = CHR ''-'' then map_option (\<lambda>ds. - int (nat_of_digits ds)) (digits cs)
          else if c = CHR ''+'' then map_option (\<lambda>ds. int (nat_of_digits ds)) (digits cs)
          else map_option (\<lambda>ds. int (nat_of_digits ds)) (digits (c # cs)))"

text \<open>
  \<^verbatim>\<open>int(x)\<close> on a finite float truncates toward zero: \<^verbatim>\<open>int(3.5)\<close> is 3, \<^verbatim>\<open>int(-3.5)\<close>
  is -3 and \<^verbatim>\<open>int(-0.5)\<close> is 0. No exception is raised.
\<close>

definition float_trunc :: "int \<Rightarrow> nat \<Rightarrow> int" where
  "float_trunc m k = (if 0 \<le> m then m div 2 ^ k else - ((- m) div 2 ^ k))"

text \<open>
  \<^verbatim>\<open>int(qty)\<close>. On an infinite float it raises \<^verbatim>\<open>OverflowError\<close>, on a NaN
  \<^verbatim>\<open>ValueError\<close>, on \<^verbatim>\<open>None\<close> \<^verbatim>\<open>TypeError\<close>; \<^verbatim>\<open>int(True)\<close> is 1 and \<^verbatim>\<open>int(False)\<close> is 0.
\<close>

definition py_int :: "pyval \<Rightarrow> exn + int" where
  "py_int v =
     (case v of
        PyInt n \<Rightarrow> Inr n
      | PyStr s \<Rightarrow> (case int_of_str s of None \<Rightarrow> Inl ValueError | Some n \<Rightarrow> Inr n)
      | PyFloat x \<Rightarrow>
          (case x of
             Finite m k \<Rightarrow> Inr (float_trunc m k)
           | Infinite \<Rightarrow> Inl OverflowError
           | NaN \<Rightarrow> Inl ValueError)
      | PyBool b \<Rightarrow> Inr (if b then 1 else 0)
      | PyNone \<Rightarrow> Inl TypeError)"

subsection \<open>The state\<close>

text \<open>
  \<^verbatim>\<open>stock_data\<close> is a Python dictionary: its keys are distinct and it enumerates them in
  insertion order. \<open>(string, int) alist\<close> is the type of association lists with distinct
  keys; \<open>DAList.update\<close> replaces the value of a key where it stands and appends a new key
  at the end, \<open>DAList.delete\<close> removes a key and keeps the order of the others, as
  \<^verbatim>\<open>d[k] = v\<close> and \<^verbatim>\<open>del d[k]\<close> do. Quantities are Python's unbounded integers.

  The JSON codec and the file system are libraries, not code of the module. A file is
  represented by what \<^verbatim>\<open>open\<close> and \<^verbatim>\<open>json.load\<close> make of it: no entry for a path that
  does not exist, \<open>Inaccessible\<close> for a path that \<^verbatim>\<open>open\<close> refuses with an \<^verbatim>\<open>OSError\<close>
  other than \<^verbatim>\<open>FileNotFoundError\<close>, \<open>Corrupt\<close> for a text that is not JSON, and
  \<open>Document d\<close> for the text of the JSON object \<open>d\<close>. \<^verbatim>\<open>json.dump\<close> writes the text
  that \<^verbatim>\<open>json.load\<close> reads back as the same dictionary; the representation builds that in.
  Documents are objects from strings to integers, the format of the inventory file;
  other JSON values are not modelled.
\<close>

type_synonym stock = "(string, int) alist"

datatype file_content = Inaccessible | Corrupt | Document stock

datatype level = DEBUG | INFO | WARNING | ERROR

datatype message =
    Loaded string
  | FileNotFound string
  | DecodeFailed string
  | LoadFailed exn
  | Saved string
  | SaveFailed exn
  | InvalidItem
  | InvalidQuantity string pyval
  | Delegating string int
  | AddedZero string
  | Added int string int
  | NonPositive int
  | OnlyAvailable int string int
  | Depleted string
  | Removed int string int
  | NotFound string
  | RemoveFailed exn

record world =
  stock_data :: stock
  files :: "(string \<times> file_content) list"
  records :: "(level \<times> message) list"

definition logging :: "level \<Rightarrow> message \<Rightarrow> world \<Rightarrow> world" where
  "logging l m w = w\<lparr>records := records w @ [(l, m)]\<rparr>"

definition INVENTORY_FILE :: string where
  "INVENTORY_FILE = ''inventory.json''"

text \<open>
  A call of one of the module's functions ends in one of two ways: it returns, \<open>Inr w'\<close>
  with the state \<open>w'\<close> it leaves, or an exception it does not catch reaches its caller,
  \<open>Inl (e, w')\<close> with the exception and the state at the \<^verbatim>\<open>raise\<close>. Either way the global
  state the caller finds afterwards is \<open>state_after\<close>.
\<close>

type_synonym outcome = "(exn \<times> world) + world"

definition state_after :: "outcome \<Rightarrow> world" where
  "state_after r = (case r of Inl (e, w) \<Rightarrow> w | Inr w \<Rightarrow> w)"

subsection \<open>\<^verbatim>\<open>load_data\<close> and \<^verbatim>\<open>save_data\<close>\<close>

definition read_json :: "(string \<times> file_content) list \<Rightarrow> string \<Rightarrow> exn + stock" where
  "read_json fs file_path =
     (case map_of fs file_path of
        None \<Rightarrow> Inl FileNotFoundError
      | Some Inaccessible \<Rightarrow> Inl PermissionError
      | Some Corrupt \<Rightarrow> Inl JSONDecodeError
      | Some (Document d) \<Rightarrow> Inr d)"

definition write_json :: "(string \<times> file_content) list \<Rightarrow> string \<Rightarrow> stock \<Rightarrow> exn + (string \<times> file_content) list" where
  "write_json fs file_path d =
     (case map_of fs file_path of
        Some Inaccessible \<Rightarrow> Inl PermissionError
      | _ \<Rightarrow> Inr (AList.update file_path (Document d) fs))"

text \<open>
  The three \<^verbatim>\<open>except\<close> clauses of \<^verbatim>\<open>load_data\<close> in their order; the last one catches
  every \<^verbatim>\<open>Exception\<close>, so nothing reaches the caller.
\<close>

definition load_data :: "world \<Rightarrow> string \<Rightarrow> outcome" where
  "load_data w file_path =
     (case read_json (files w) file_path of
        Inr d \<Rightarrow> Inr (logging INFO (Loaded file_path) (w\<lparr>stock_data := d\<rparr>))
      | Inl e \<Rightarrow>
          if e = FileNotFoundError then
            Inr ((logging INFO (FileNotFound file_path) w)\<lparr>stock_data := DAList.empty\<rparr>)
          else if e = JSONDecodeError then
            Inr ((logging ERROR (DecodeFailed file_path) w)\<lparr>stock_data := DAList.empty\<rparr>)
          else
            Inr ((logging ERROR (LoadFailed e) w)\<lparr>stock_data := DAList.empty\<rparr>))"

definition save_data :: "world \<Rightarrow> string \<Rightarrow> outcome" where
  "save_data w file_path =
     (case write_json (files w) file_path (stock_data w) of
        Inr fs \<Rightarrow> Inr (logging INFO (Saved file_path) (w\<lparr>files := fs\<rparr>))
      | Inl e \<Rightarrow> Inr (logging ERROR (SaveFailed e) w))"

subsection \<open>\<^verbatim>\<open>add_item\<close> and \<^verbatim>\<open>remove_item\<close>\<close>

text \<open>\<^verbatim>\<open>isinstance(item, str) and item\<close>: the name of a valid item.\<close>

definition item_name :: "pyval \<Rightarrow> string option" where
  "item_name item = (case item of PyStr s \<Rightarrow> (if s = [] then None else Some s) | _ \<Rightarrow> None)"

text \<open>
  The second \<^verbatim>\<open>try\<close> block of \<^verbatim>\<open>remove_item\<close>. Its only \<^verbatim>\<open>raise\<close> is the
  \<^verbatim>\<open>KeyError\<close> of \<^verbatim>\<open>stock_data[item]\<close> in its first statement, before any mutation, so
  the handlers continue from the state the block started in.
\<close>

definition remove_stock :: "world \<Rightarrow> string \<Rightarrow> int \<Rightarrow> exn + world" where
  "remove_stock w name qty_int =
     (case DAList.lookup (stock_data w) name of
        None \<Rightarrow> Inl KeyError
      | Some current_qty \<Rightarrow>
          let qty_removed = min qty_int current_qty;
              w1 = (if qty_removed < qty_int
                    then logging WARNING (OnlyAvailable current_qty name qty_removed) w else w);
              remaining = current_qty - qty_removed;
              w2 = w1\<lparr>stock_data := DAList.update name remaining (stock_data w1)\<rparr>
          in if remaining = 0
             then Inr (logging INFO (Depleted name)
                    (w2\<lparr>stock_data := DAList.delete name (stock_data w2)\<rparr>))
             else Inr (logging INFO (Removed qty_removed name remaining) w2))"

text \<open>
  The first \<^verbatim>\<open>try\<close> block of both functions is \<^verbatim>\<open>qty_int = int(qty)\<close> with the clause
  \<^verbatim>\<open>except (TypeError, ValueError)\<close>. An exception of another class, the
  \<^verbatim>\<open>OverflowError\<close> of an infinite float, is not caught there and reaches the caller;
  nothing has been logged or changed at that point.
\<close>

definition remove_item :: "world \<Rightarrow> pyval \<Rightarrow> pyval \<Rightarrow> outcome" where
  "remove_item w item qty =
     (case item_name item of
        None \<Rightarrow> Inr (logging WARNING InvalidItem w)
      | Some name \<Rightarrow>
          (case py_int qty of
             Inl e \<Rightarrow>
               if e = TypeError \<or> e = ValueError
               then Inr (logging ERROR (InvalidQuantity name qty) w) else Inl (e, w)
           | Inr qty_int \<Rightarrow>
               if qty_int \<le> 0 then Inr (logging WARNING (NonPositive qty_int) w)
               else
                 (case remove_stock w name qty_int of
                    Inr w' \<Rightarrow> Inr w'
                  | Inl e \<Rightarrow>
                      if e = KeyError then Inr (logging ERROR (NotFound name) w)
                      else Inr (logging ERROR (RemoveFailed e) w))))"

definition add_item :: "world \<Rightarrow> pyval \<Rightarrow> pyval \<Rightarrow> outcome" where
  "add_item w item qty =
     (case item_name item of
        None \<Rightarrow> Inr (logging WARNING InvalidItem w)
      | Some name \<Rightarrow>
          (case py_int qty of
             Inl e \<Rightarrow>
               if e = TypeError \<or> e = ValueError
               then Inr (logging ERROR (InvalidQuantity name qty) w) else Inl (e, w)
           | Inr qty_int \<Rightarrow>
               if qty_int < 0 then
                 remove_item (logging INFO (Delegating name \<bar>qty_int\<bar>) w) item (PyInt \<bar>qty_int\<bar>)
               else if qty_int = 0 then Inr (logging DEBUG (AddedZero name) w)
               else
                 let total = (case DAList.lookup (stock_data w) name of None \<Rightarrow> 0 | Some v \<Rightarrow> v)
                               + qty_int;
                     w1 = w\<lparr>stock_data := DAList.update name total (stock_data w)\<rparr>
                 in Inr (logging INFO (Added qty_int name total) w1)))"

subsection \<open>Queries\<close>

text \<open>
  \<^verbatim>\<open>stock_data.get(item, 0)\<close>. The keys are strings, so a value of another type is
  never found.
\<close>

definition get_qty :: "world \<Rightarrow> pyval \<Rightarrow> int" where
  "get_qty w item =
     (case item of
        PyStr s \<Rightarrow> (case DAList.lookup (stock_data w) s of None \<Rightarrow> 0 | Some v \<Rightarrow> v)
      | _ \<Rightarrow> 0)"

definition check_low_items :: "world \<Rightarrow> int \<Rightarrow> string list" where
  "check_low_items w threshold =
     map fst (filter (\<lambda>(item, qty). qty < threshold) (DAList.impl_of (stock_data w)))"

subsection \<open>The invariant of the data model\<close>

definition positive_stock :: "stock \<Rightarrow> bool" where
  "positive_stock d \<longleftrightarrow> list_all (\<lambda>(item, qty). 0 < qty) (DAList.impl_of d)"

section \<open>How the operations change the state\<close>

subsection \<open>Logging, coercion and the dictionary\<close>

lemma stock_data_logging: "stock_data (logging l m w) = stock_data w"
  by (simp add: logging_def)

lemma files_logging: "files (logging l m w) = files w"
  by (simp add: logging_def)

lemma records_logging: "records (logging l m w) = records w @ [(l, m)]"
  by (simp add: logging_def)

lemma state_after_Inr: "state_after (Inr w) = w"
  by (simp add: state_after_def)

lemma state_after_Inl: "state_after (Inl (e, w)) = w"
  by (simp add: state_after_def)

lemma py_int_exn: "py_int v = Inl e \<Longrightarrow> e = TypeError \<or> e = ValueError \<or> e = OverflowError"
  by (auto simp: py_int_def split: pyval.splits pyfloat.splits option.splits)

lemma py_int_PyInt: "py_int (PyInt n) = Inr n"
  by (simp add: py_int_def)







lemma lookup_impl_of: "DAList.lookup d k = Some v \<longleftrightarrow> (k, v) \<in> set (DAList.impl_of d)"
  by (simp add: DAList.lookup.rep_eq)

lemma positive_stock_iff:
  "positive_stock d \<longleftrightarrow> (\<forall>k v. DAList.lookup d k = Some v \<longrightarrow> 0 < v)"
  by (auto simp: positive_stock_def list_all_iff lookup_impl_of)

lemma positive_stock_empty: "positive_stock DAList.empty"
  by (simp add: positive_stock_iff)

lemma positive_stock_update: "positive_stock d \<Longrightarrow> 0 < v \<Longrightarrow> positive_stock (DAList.update k v d)"
  by (simp add: positive_stock_iff lookup_update)

lemma positive_stock_delete: "positive_stock d \<Longrightarrow> positive_stock (DAList.delete k d)"
  by (simp add: positive_stock_iff)

lemma positive_stock_delete_update: "positive_stock d \<Longrightarrow> positive_stock (DAList.delete k (DAList.update k v d))"
  by (simp add: positive_stock_iff lookup_update)

lemma item_name_PyStr: "item_name item = Some name \<Longrightarrow> item = PyStr name"
  by (auto simp: item_name_def split: pyval.splits if_splits)

lemma get_qty_name:
  "item_name item = Some name \<Longrightarrow>
   get_qty w item = (case DAList.lookup (stock_data w) name of None \<Rightarrow> 0 | Some v \<Rightarrow> v)"
  by (auto simp: get_qty_def item_name_def split: pyval.splits if_splits)

subsection \<open>\<^verbatim>\<open>remove_item\<close>\<close>

lemma remove_stock_Some:
  "DAList.lookup (stock_data w) name = Some q \<Longrightarrow>
   \<exists>w'. remove_stock w name n = Inr w' \<and> files w' = files w \<and>
     stock_data w' = (if n < q then DAList.update name (q - n) (stock_data w)
                      else DAList.delete name (DAList.update name 0 (stock_data w)))"
  by (auto simp: remove_stock_def Let_def stock_data_logging files_logging min_def)

lemma remove_stock_None:
  "DAList.lookup (stock_data w) name = None \<Longrightarrow> remove_stock w name n = Inl KeyError"
  by (simp add: remove_stock_def)

lemma remove_item_invalid:
  "item_name item = None \<Longrightarrow> remove_item w item qty = Inr (logging WARNING InvalidItem w)"
  by (simp add: remove_item_def)

lemma remove_item_bad_qty:
  "item_name item = Some name \<Longrightarrow> py_int qty = Inl e \<Longrightarrow> e \<noteq> OverflowError \<Longrightarrow>
   remove_item w item qty = Inr (logging ERROR (InvalidQuantity name qty) w)"
  using py_int_exn [of qty e] by (auto simp: remove_item_def)

lemma remove_item_overflow:
  "item_name item = Some name \<Longrightarrow> py_int qty = Inl OverflowError \<Longrightarrow>
   remove_item w item qty = Inl (OverflowError, w)"
  by (simp add: remove_item_def)

lemma remove_item_nonpositive:
  "item_name item = Some name \<Longrightarrow> py_int qty = Inr n \<Longrightarrow> n \<le> 0 \<Longrightarrow>
   remove_item w item qty = Inr (logging WARNING (NonPositive n) w)"
  by (simp add: remove_item_def)

lemma remove_item_absent:
  "item_name item = Some name \<Longrightarrow> py_int qty = Inr n \<Longrightarrow> 0 < n \<Longrightarrow>
   DAList.lookup (stock_data w) name = None \<Longrightarrow>
   remove_item w item qty = Inr (logging ERROR (NotFound name) w)"
  by (simp add: remove_item_def remove_stock_None)

lemma remove_item_present:
  "item_name item = Some name \<Longrightarrow> py_int qty = Inr n \<Longrightarrow> 0 < n \<Longrightarrow>
   DAList.lookup (stock_data w) name = Some q \<Longrightarrow>
   \<exists>w'. remove_item w item qty = Inr w' \<and> files w' = files w \<and>
     stock_data w' = (if n < q then DAList.update name (q - n) (stock_data w)
                      else DAList.delete name (DAList.update name 0 (stock_data w)))"
  using remove_stock_Some [of w name q n] by (auto simp: remove_item_def)

text \<open>
  \<^verbatim>\<open>remove_item\<close> returns unless the coercion of the quantity raises
  \<^verbatim>\<open>OverflowError\<close>, and never touches the files.
\<close>

lemma remove_item_total:
  "py_int qty \<noteq> Inl OverflowError \<Longrightarrow>
   \<exists>w'. remove_item w item qty = Inr w' \<and> files w' = files w"
proof (cases "item_name item")
  case None
  then show ?thesis by (simp add: remove_item_invalid files_logging)
next
  case (Some name)
  assume ok: "py_int qty \<noteq> Inl OverflowError"
  show ?thesis
  proof (cases "py_int qty")
    case (Inl e)
    with ok have "e \<noteq> OverflowError" by auto
    with Some Inl show ?thesis
      by (simp add: remove_item_bad_qty files_logging)
  next
    case (Inr n)
    show ?thesis
    proof (cases "0 < n")
      case False
      with Some Inr show ?thesis
        by (simp add: remove_item_nonpositive files_logging)
    next
      case True
      show ?thesis
      proof (cases "DAList.lookup (stock_data w) name")
        case None
        with Some Inr True show ?thesis
          by (simp add: remove_item_absent files_logging)
      next
        case (Some q)
        from remove_item_present [OF \<open>item_name item = Some name\<close> Inr True Some]
        show ?thesis by blast
      qed
    qed
  qed
qed


text \<open>What \<^verbatim>\<open>remove_item\<close> does to the dictionary, in terms of lookups.\<close>

lemma remove_item_lookup:
  "DAList.lookup (stock_data (state_after (remove_item w item qty))) k =
     (case (item_name item, py_int qty, DAList.lookup (stock_data w) k) of
        (Some name, Inr n, Some q) \<Rightarrow>
           if k = name \<and> 0 < n then (if n < q then Some (q - n) else None) else Some q
      | (_, _, r) \<Rightarrow> r)"
proof (cases "item_name item")
  case None
  then show ?thesis
    by (simp add: remove_item_invalid state_after_Inr stock_data_logging split: option.splits)
next
  case (Some name)
  show ?thesis
  proof (cases "py_int qty")
    case (Inl e)
    show ?thesis
    proof (cases "e = OverflowError")
      case True
      with Some Inl show ?thesis
        by (simp add: remove_item_overflow state_after_Inl split: option.splits)
    next
      case False
      with Some Inl show ?thesis
        by (simp add: remove_item_bad_qty state_after_Inr stock_data_logging split: option.splits)
    qed
  next
    case (Inr n)
    show ?thesis
    proof (cases "0 < n")
      case False
      with Some Inr show ?thesis
        by (simp add: remove_item_nonpositive state_after_Inr stock_data_logging
              split: option.splits)
    next
      case True
      show ?thesis
      proof (cases "DAList.lookup (stock_data w) name")
        case None
        with Some Inr True show ?thesis
          by (auto simp: remove_item_absent state_after_Inr stock_data_logging
                split: option.splits)
      next
        case (Some q)
        from remove_item_present [OF \<open>item_name item = Some name\<close> Inr True Some]
        obtain w' where w': "remove_item w item qty = Inr w'"
          "stock_data w' = (if n < q then DAList.update name (q - n) (stock_data w)
                      else DAList.delete name (DAList.update name 0 (stock_data w)))" by blast
        with \<open>item_name item = Some name\<close> Inr True Some show ?thesis
          by (auto simp: state_after_Inr lookup_update split: option.splits)
      qed
    qed
  qed
qed

lemma remove_item_positive_stock:
  "positive_stock (stock_data w) \<Longrightarrow>
   positive_stock (stock_data (state_after (remove_item w item qty)))"
proof -
  assume inv: "positive_stock (stock_data w)"
  have "0 < v"
    if "DAList.lookup (stock_data (state_after (remove_item w item qty))) k = Some v" for k v
    using that inv unfolding remove_item_lookup
    by (auto simp: positive_stock_iff split: option.splits sum.splits if_splits)
  then show ?thesis by (auto simp: positive_stock_iff)
qed

text \<open>A record logged before the call changes nothing but the log.\<close>

lemma remove_item_logging:
  "py_int qty \<noteq> Inl OverflowError \<Longrightarrow>
   \<exists>w1 w2. remove_item (logging l m w) item qty = Inr w1 \<and> remove_item w item qty = Inr w2 \<and>
     stock_data w1 = stock_data w2 \<and> files w1 = files w2"
proof (cases "item_name item")
  case None
  then show ?thesis by (simp add: remove_item_invalid stock_data_logging files_logging)
next
  case (Some name)
  assume ok: "py_int qty \<noteq> Inl OverflowError"
  show ?thesis
  proof (cases "py_int qty")
    case (Inl e)
    with ok have "e \<noteq> OverflowError" by auto
    with Some Inl show ?thesis
      by (simp add: remove_item_bad_qty stock_data_logging files_logging)
  next
    case (Inr n)
    show ?thesis
    proof (cases "0 < n")
      case False
      with Some Inr show ?thesis
        by (simp add: remove_item_nonpositive stock_data_logging files_logging)
    next
      case True
      show ?thesis
      proof (cases "DAList.lookup (stock_data w) name")
        case None
        with Some Inr True show ?thesis
          by (simp add: remove_item_absent stock_data_logging files_logging)
      next
        case (Some q)
        then have q': "DAList.lookup (stock_data (logging l m w)) name = Some q"
          by (simp add: stock_data_logging)
        from remove_item_present [OF \<open>item_name item = Some name\<close> Inr True Some]
          remove_item_present [OF \<open>item_name item = Some name\<close> Inr True q']
        show ?thesis
          by (auto simp: stock_data_logging files_logging)
      qed
    qed
  qed
qed

subsection \<open>\<^verbatim>\<open>add_item\<close>\<close>

lemma add_item_invalid:
  "item_name item = None \<Longrightarrow> add_item w item qty = Inr (logging WARNING InvalidItem w)"
  by (simp add: add_item_def)

lemma add_item_bad_qty:
  "item_name item = Some name \<Longrightarrow> py_int qty = Inl e \<Longrightarrow> e \<noteq> OverflowError \<Longrightarrow>
   add_item w item qty = Inr (logging ERROR (InvalidQuantity name qty) w)"
  using py_int_exn [of qty e] by (auto simp: add_item_def)

lemma add_item_overflow:
  "item_name item = Some name \<Longrightarrow> py_int qty = Inl OverflowError \<Longrightarrow>
   add_item w item qty = Inl (OverflowError, w)"
  by (simp add: add_item_def)

lemma add_item_negative:
  "item_name item = Some name \<Longrightarrow> py_int qty = Inr n \<Longrightarrow> n < 0 \<Longrightarrow>
   add_item w item qty = remove_item (logging INFO (Delegating name (- n)) w) item (PyInt (- n))"
  by (simp add: add_item_def)

lemma add_item_zero:
  "item_name item = Some name \<Longrightarrow> py_int qty = Inr 0 \<Longrightarrow>
   add_item w item qty = Inr (logging DEBUG (AddedZero name) w)"
  by (simp add: add_item_def)

lemma add_item_positive:
  "item_name item = Some name \<Longrightarrow> py_int qty = Inr n \<Longrightarrow> 0 < n \<Longrightarrow>
   add_item w item qty =
     Inr (logging INFO (Added n name (get_qty w item + n))
            (w\<lparr>stock_data := DAList.update name (get_qty w item + n) (stock_data w)\<rparr>))"
  by (auto simp: add_item_def get_qty_def item_name_def Let_def split: pyval.splits if_splits)

text \<open>
  \<^verbatim>\<open>add_item\<close> returns unless the coercion of the quantity raises \<^verbatim>\<open>OverflowError\<close>.
\<close>

lemma add_item_total:
  "py_int qty \<noteq> Inl OverflowError \<Longrightarrow> \<exists>w'. add_item w item qty = Inr w'"
proof (cases "item_name item")
  case None
  then show ?thesis by (simp add: add_item_invalid)
next
  case (Some name)
  assume ok: "py_int qty \<noteq> Inl OverflowError"
  show ?thesis
  proof (cases "py_int qty")
    case (Inl e)
    with ok have "e \<noteq> OverflowError" by auto
    with Some Inl show ?thesis
      by (simp add: add_item_bad_qty)
  next
    case (Inr n)
    consider "n < 0" | "n = 0" | "0 < n" by linarith
    then show ?thesis
    proof cases
      case 1
      have "py_int (PyInt (- n)) \<noteq> Inl OverflowError"
        by (simp add: py_int_PyInt)
      from remove_item_total [OF this, of "logging INFO (Delegating name (- n)) w" item]
        Some Inr 1
      show ?thesis by (auto simp: add_item_negative)
    next
      case 2
      with Some Inr show ?thesis by (simp add: add_item_zero)
    next
      case 3
      with Some Inr show ?thesis by (simp add: add_item_positive)
    qed
  qed
qed


text \<open>What \<^verbatim>\<open>add_item\<close> does to the dictionary, in terms of lookups.\<close>

lemma add_item_lookup:
  "DAList.lookup (stock_data (state_after (add_item w item qty))) k =
     (case (item_name item, py_int qty) of
        (Some name, Inr n) \<Rightarrow>
           if k = name \<and> 0 < n then Some (get_qty w item + n)
           else if k = name \<and> n < 0 then
             (case DAList.lookup (stock_data w) k of
                None \<Rightarrow> None | Some q \<Rightarrow> if - n < q then Some (q + n) else None)
           else DAList.lookup (stock_data w) k
      | _ \<Rightarrow> DAList.lookup (stock_data w) k)"
proof (cases "item_name item")
  case None
  then show ?thesis by (simp add: add_item_invalid state_after_Inr stock_data_logging)
next
  case (Some name)
  show ?thesis
  proof (cases "py_int qty")
    case (Inl e)
    with Some show ?thesis
      by (cases "e = OverflowError")
        (simp_all add: add_item_overflow add_item_bad_qty state_after_Inr state_after_Inl
           stock_data_logging)
  next
    case (Inr n)
    consider "n < 0" | "n = 0" | "0 < n" by linarith
    then show ?thesis
    proof cases
      case 1
      with Some Inr show ?thesis
        by (auto simp: add_item_negative remove_item_lookup py_int_PyInt stock_data_logging
              split: option.splits)
    next
      case 2
      with Some Inr show ?thesis
        by (simp add: add_item_zero state_after_Inr stock_data_logging)
    next
      case 3
      with Some Inr show ?thesis
        by (simp add: add_item_positive state_after_Inr stock_data_logging lookup_update)
    qed
  qed
qed

lemma add_item_positive_stock:
  "positive_stock (stock_data w) \<Longrightarrow>
   positive_stock (stock_data (state_after (add_item w item qty)))"
proof (cases "item_name item")
  case None
  assume "positive_stock (stock_data w)"
  with None show ?thesis by (simp add: add_item_invalid state_after_Inr stock_data_logging)
next
  case (Some name)
  assume inv: "positive_stock (stock_data w)"
  show ?thesis
  proof (cases "py_int qty")
    case (Inl e)
    with Some inv show ?thesis
      by (cases "e = OverflowError")
        (simp_all add: add_item_overflow add_item_bad_qty state_after_Inr state_after_Inl
           stock_data_logging)
  next
    case (Inr n)
    consider "n < 0" | "n = 0" | "0 < n" by linarith
    then show ?thesis
    proof cases
      case 1
      from inv have "positive_stock (stock_data (logging INFO (Delegating name (- n)) w))"
        by (simp add: stock_data_logging)
      from remove_item_positive_stock [OF this] Some Inr 1 show ?thesis
        by (simp add: add_item_negative)
    next
      case 2
      with Some Inr inv show ?thesis
        by (simp add: add_item_zero state_after_Inr stock_data_logging)
    next
      case 3
      from inv have "0 \<le> get_qty w item"
        by (auto simp: get_qty_name [OF Some] positive_stock_iff split: option.splits
              intro: order.strict_implies_order)
      with 3 have "0 < get_qty w item + n" by linarith
      with Some Inr 3 inv show ?thesis
        by (simp add: add_item_positive state_after_Inr stock_data_logging positive_stock_update)
    qed
  qed
qed


subsection \<open>\<^verbatim>\<open>save_data\<close> and \<^verbatim>\<open>load_data\<close>\<close>

lemma save_data_total:
  "\<exists>w'. save_data w file_path = Inr w' \<and> stock_data w' = stock_data w"
  by (auto simp: save_data_def stock_data_logging split: sum.splits)

lemma save_data_writes:
  "map_of (files w) file_path \<noteq> Some Inaccessible \<Longrightarrow>
   save_data w file_path =
     Inr (logging INFO (Saved file_path)
            (w\<lparr>files := AList.update file_path (Document (stock_data w)) (files w)\<rparr>))"
  by (auto simp: save_data_def write_json_def split: option.splits file_content.splits)

lemma load_data_cases:
  "load_data w file_path =
     Inr (logging
           (case map_of (files w) file_path of
              None \<Rightarrow> INFO | Some Inaccessible \<Rightarrow> ERROR | Some Corrupt \<Rightarrow> ERROR
            | Some (Document d) \<Rightarrow> INFO)
           (case map_of (files w) file_path of
              None \<Rightarrow> FileNotFound file_path
            | Some Inaccessible \<Rightarrow> LoadFailed PermissionError
            | Some Corrupt \<Rightarrow> DecodeFailed file_path
            | Some (Document d) \<Rightarrow> Loaded file_path)
           (w\<lparr>stock_data :=
                (case map_of (files w) file_path of
                   Some (Document d) \<Rightarrow> d | _ \<Rightarrow> DAList.empty)\<rparr>))"
  by (auto simp: load_data_def read_json_def logging_def split: option.splits file_content.splits)

section \<open>The claims\<close>

subsection \<open>The invariant of the stock mapping\<close>

text \<open>
  C1, as amended. The invariant of the data model is that every stored quantity is
  positive, so that a key is absent exactly when \<^verbatim>\<open>get_qty\<close> reports 0. It holds in the
  empty mapping, and from every state that satisfies it the state after \<^verbatim>\<open>add_item\<close>,
  \<^verbatim>\<open>remove_item\<close> and \<^verbatim>\<open>save_data\<close> satisfies it, whatever the item, the quantity and
  the path are. \<^verbatim>\<open>save_data\<close> always returns normally, and so do \<^verbatim>\<open>add_item\<close> and
  \<^verbatim>\<open>remove_item\<close> unless \<^verbatim>\<open>int(qty)\<close> raises \<^verbatim>\<open>OverflowError\<close>, which happens before
  any mutation. \<^verbatim>\<open>load_data\<close> installs the object of the file as it is: after it the
  invariant holds exactly when the file is missing, unreadable or corrupt (the mapping is
  then empty) or the object in the file satisfies the invariant itself.
\<close>

theorem stock_invariant_preserved:
  "positive_stock (stock_data w) \<Longrightarrow>
     positive_stock (stock_data (state_after (add_item w item qty))) \<and>
     positive_stock (stock_data (state_after (remove_item w item qty))) \<and>
     (py_int qty \<noteq> Inl OverflowError \<longrightarrow>
        (\<exists>w'. add_item w item qty = Inr w' \<and> positive_stock (stock_data w')) \<and>
        (\<exists>w'. remove_item w item qty = Inr w' \<and> positive_stock (stock_data w'))) \<and>
     (\<exists>w'. save_data w file_path = Inr w' \<and> positive_stock (stock_data w')) \<and>
     (\<exists>w'. load_data w file_path = Inr w' \<and>
        (positive_stock (stock_data w') \<longleftrightarrow>
           (\<forall>d. map_of (files w) file_path = Some (Document d) \<longrightarrow> positive_stock d))) \<and>
     (\<forall>name. DAList.lookup (stock_data w) name = None \<longleftrightarrow> get_qty w (PyStr name) = 0) \<and>
     positive_stock DAList.empty"
proof (intro conjI impI)
  assume inv: "positive_stock (stock_data w)"
  show a: "positive_stock (stock_data (state_after (add_item w item qty)))"
    by (rule add_item_positive_stock [OF inv])
  show r: "positive_stock (stock_data (state_after (remove_item w item qty)))"
    by (rule remove_item_positive_stock [OF inv])
  show "\<exists>w'. add_item w item qty = Inr w' \<and> positive_stock (stock_data w')"
    if "py_int qty \<noteq> Inl OverflowError"
    using add_item_total [OF that, of w item] a by (auto simp: state_after_Inr)
  show "\<exists>w'. remove_item w item qty = Inr w' \<and> positive_stock (stock_data w')"
    if "py_int qty \<noteq> Inl OverflowError"
    using remove_item_total [OF that, of w item] r by (auto simp: state_after_Inr)
  show "\<exists>w'. save_data w file_path = Inr w' \<and> positive_stock (stock_data w')"
    using save_data_total [of w file_path] inv by auto
  show "\<exists>w'. load_data w file_path = Inr w' \<and>
        (positive_stock (stock_data w') \<longleftrightarrow>
           (\<forall>d. map_of (files w) file_path = Some (Document d) \<longrightarrow> positive_stock d))"
    by (auto simp: load_data_cases stock_data_logging positive_stock_empty
          split: option.splits file_content.splits)
  show "\<forall>name. DAList.lookup (stock_data w) name = None \<longleftrightarrow> get_qty w (PyStr name) = 0"
    using inv by (auto simp: get_qty_def positive_stock_iff split: option.splits)
  show "positive_stock DAList.empty"
    by (rule positive_stock_empty)
qed

theorem stock_invariant_preserved_witness:
  "positive_stock (stock_data
     \<lparr>stock_data = DAList.update ''apple'' 7 DAList.empty, files = [], records = []\<rparr>) \<and>
   (\<exists>w'. add_item
      \<lparr>stock_data = DAList.update ''apple'' 7 DAList.empty, files = [], records = []\<rparr>
      (PyStr ''apple'') (PyInt 7) = Inr w' \<and> positive_stock (stock_data w')) \<and>
   (\<exists>w'. remove_item
      \<lparr>stock_data = DAList.update ''apple'' 7 DAList.empty, files = [], records = []\<rparr>
      (PyStr ''apple'') (PyInt 7) = Inr w' \<and> positive_stock (stock_data w')) \<and>
   positive_stock (stock_data (state_after (add_item
      \<lparr>stock_data = DAList.update ''apple'' 7 DAList.empty, files = [], records = []\<rparr>
      (PyStr ''apple'') (PyFloat Infinite))))"
proof -
  let ?w = "\<lparr>stock_data = DAList.update ''apple'' 7 DAList.empty, files = [], records = []\<rparr>"
  have h: "positive_stock (stock_data ?w)"
    by (simp add: positive_stock_def DAList.update.rep_eq DAList.empty.rep_eq)
  have ok: "py_int (PyInt 7) \<noteq> Inl OverflowError"
    by (simp add: py_int_def)
  from stock_invariant_preserved [OF h, of "PyStr ''apple''" "PyInt 7" "''inventory.json''"]
    stock_invariant_preserved [OF h, of "PyStr ''apple''" "PyFloat Infinite" "''inventory.json''"]
    h ok
  show ?thesis by blast
qed

text \<open>
  C1 as stated fails for \<^verbatim>\<open>load_data\<close>: the file \<^verbatim>\<open>{"apple": 0}\<close> is valid JSON, and
  \<^verbatim>\<open>stock_data = json.load(file_obj)\<close> installs it unchecked. Starting from the empty
  mapping, the mapping after the load has the key \<^verbatim>\<open>apple\<close> with the quantity 0.
\<close>

theorem load_data_keeps_zero_quantity:
  "load_data
     \<lparr>stock_data = DAList.empty,
      files = [(''inventory.json'', Document (DAList.update ''apple'' 0 DAList.empty))],
      records = []\<rparr> ''inventory.json''
   = Inr \<lparr>stock_data = DAList.update ''apple'' 0 DAList.empty,
          files = [(''inventory.json'', Document (DAList.update ''apple'' 0 DAList.empty))],
          records = [(INFO, Loaded ''inventory.json'')]\<rparr> \<and>
   positive_stock DAList.empty \<and>
   DAList.lookup (DAList.update ''apple'' 0 DAList.empty) ''apple'' = Some 0 \<and>
   \<not> positive_stock (DAList.update ''apple'' 0 DAList.empty)"
  by (simp add: load_data_def read_json_def logging_def positive_stock_def
        DAList.update.rep_eq DAList.empty.rep_eq)

subsection \<open>Removing stock\<close>

text \<open>
  C2. For a valid item stored with the quantity \<open>q\<close> and a request that coerces to
  \<open>r > 0\<close>, \<^verbatim>\<open>remove_item\<close> returns normally, \<^verbatim>\<open>get_qty\<close> then reports
  \<open>max 0 (q - r)\<close>, the item is absent exactly when that is 0, and a quantity that stays
  stored is positive. This holds for every integer \<open>q\<close>, also one loaded from a file.
\<close>

theorem remove_item_quantity:
  "item_name item = Some name \<Longrightarrow> DAList.lookup (stock_data w) name = Some q \<Longrightarrow>
   py_int qty = Inr r \<Longrightarrow> 0 < r \<Longrightarrow>
   \<exists>w'. remove_item w item qty = Inr w' \<and>
     get_qty w' item = max 0 (q - r) \<and>
     (DAList.lookup (stock_data w') name = None \<longleftrightarrow> max 0 (q - r) = 0) \<and>
     (\<forall>v. DAList.lookup (stock_data w') name = Some v \<longrightarrow> 0 < v)"
proof -
  assume a: "item_name item = Some name" "DAList.lookup (stock_data w) name = Some q"
    "py_int qty = Inr r" "0 < r"
  from remove_item_present [OF a(1) a(3) a(4) a(2)] obtain w' where
    w': "remove_item w item qty = Inr w'"
    "stock_data w' = (if r < q then DAList.update name (q - r) (stock_data w)
                      else DAList.delete name (DAList.update name 0 (stock_data w)))" by blast
  have "DAList.lookup (stock_data w') name = (if r < q then Some (q - r) else None)"
    by (simp add: w'(2))
  with w'(1) show ?thesis
    by (auto simp: get_qty_name [OF a(1)])
qed

theorem remove_item_quantity_witness:
  "item_name (PyStr ''orange'') = Some ''orange'' \<and>
   DAList.lookup (stock_data
     \<lparr>stock_data = DAList.update ''orange'' 5 DAList.empty, files = [], records = []\<rparr>)
     ''orange'' = Some 5 \<and>
   py_int (PyInt 10) = Inr 10 \<and> (0::int) < 10 \<and>
   (\<exists>w'. remove_item
      \<lparr>stock_data = DAList.update ''orange'' 5 DAList.empty, files = [], records = []\<rparr>
      (PyStr ''orange'') (PyInt 10) = Inr w' \<and>
      get_qty w' (PyStr ''orange'') = 0 \<and>
      DAList.lookup (stock_data w') ''orange'' = None)"
proof -
  let ?w = "\<lparr>stock_data = DAList.update ''orange'' 5 DAList.empty, files = [], records = []\<rparr>"
  have h1: "item_name (PyStr ''orange'') = Some ''orange''"
    by (simp add: item_name_def)
  have h2: "DAList.lookup (stock_data ?w) ''orange'' = Some 5"
    by simp
  have h3: "py_int (PyInt 10) = Inr 10"
    by (simp add: py_int_def)
  have h4: "(0::int) < 10"
    by simp
  from remove_item_quantity [OF h1 h2 h3 h4] h1 h2 h3 h4 show ?thesis
    by auto
qed

subsection \<open>Adding stock\<close>

text \<open>
  C3. For a valid item that is absent and nonnegative integers \<open>q1\<close> and \<open>q2\<close>,
  \<^verbatim>\<open>add_item(item, q1)\<close> followed by \<^verbatim>\<open>add_item(item, q2)\<close> returns normally and
  \<^verbatim>\<open>get_qty(item)\<close> is then \<open>q1 + q2\<close>.
\<close>

theorem add_item_twice:
  "item_name item = Some name \<Longrightarrow> DAList.lookup (stock_data w) name = None \<Longrightarrow>
   0 \<le> q1 \<Longrightarrow> 0 \<le> q2 \<Longrightarrow>
   \<exists>w1 w2. add_item w item (PyInt q1) = Inr w1 \<and> add_item w1 item (PyInt q2) = Inr w2 \<and>
     get_qty w2 item = q1 + q2"
proof -
  assume a: "item_name item = Some name" "DAList.lookup (stock_data w) name = None"
    "0 \<le> q1" "0 \<le> q2"
  have step: "\<exists>w'. add_item v item (PyInt n) = Inr w' \<and> get_qty w' item = get_qty v item + n"
    if "0 \<le> n" for v n
  proof (cases "n = 0")
    case True
    with a(1) show ?thesis
      by (simp add: add_item_zero py_int_PyInt get_qty_name [OF a(1)] stock_data_logging)
  next
    case False
    with that have "0 < n" by simp
    with a(1) show ?thesis
      by (simp add: add_item_positive py_int_PyInt get_qty_name [OF a(1)] stock_data_logging)
  qed
  from step [OF a(3), of w] obtain w1 where
    w1: "add_item w item (PyInt q1) = Inr w1" "get_qty w1 item = get_qty w item + q1" by blast
  from step [OF a(4), of w1] obtain w2 where
    w2: "add_item w1 item (PyInt q2) = Inr w2" "get_qty w2 item = get_qty w1 item + q2" by blast
  from a(2) have "get_qty w item = 0" by (simp add: get_qty_name [OF a(1)])
  with w1 w2 show ?thesis by auto
qed

theorem add_item_twice_witness:
  "item_name (PyStr ''grape'') = Some ''grape'' \<and>
   DAList.lookup (stock_data \<lparr>stock_data = DAList.empty, files = [], records = []\<rparr>) ''grape''
     = None \<and>
   (0::int) \<le> 7 \<and> (0::int) \<le> 0 \<and>
   (\<exists>w1 w2.
      add_item \<lparr>stock_data = DAList.empty, files = [], records = []\<rparr> (PyStr ''grape'') (PyInt 7)
        = Inr w1 \<and>
      add_item w1 (PyStr ''grape'') (PyInt 0) = Inr w2 \<and>
      get_qty w2 (PyStr ''grape'') = 7)"
proof -
  let ?w = "\<lparr>stock_data = DAList.empty, files = [], records = []\<rparr>"
  have h1: "item_name (PyStr ''grape'') = Some ''grape''"
    by (simp add: item_name_def)
  have h2: "DAList.lookup (stock_data ?w) ''grape'' = None"
    by simp
  from add_item_twice [OF h1 h2, of 7 0] h1 h2 show ?thesis
    by simp
qed

text \<open>
  C4. For every item and every integer \<open>n > 0\<close>, \<^verbatim>\<open>add_item(item, -n)\<close> and
  \<^verbatim>\<open>remove_item(item, n)\<close>, run from the same state, both return normally and leave the
  same mapping (and the same files). Only the log differs: \<^verbatim>\<open>add_item\<close> first records
  that it delegates.
\<close>

theorem add_negative_is_remove:
  "0 < n \<Longrightarrow>
   \<exists>w1 w2. add_item w item (PyInt (- n)) = Inr w1 \<and> remove_item w item (PyInt n) = Inr w2 \<and>
     stock_data w1 = stock_data w2 \<and> files w1 = files w2"
proof (cases "item_name item")
  case None
  then show ?thesis
    by (simp add: add_item_invalid remove_item_invalid)
next
  case (Some name)
  assume "0 < n"
  with Some have "add_item w item (PyInt (- n)) =
      remove_item (logging INFO (Delegating name n) w) item (PyInt n)"
    using add_item_negative [of item name "PyInt (- n)" "- n" w] by (simp add: py_int_PyInt)
  moreover have "py_int (PyInt n) \<noteq> Inl OverflowError"
    by (simp add: py_int_PyInt)
  from remove_item_logging [OF this, of INFO "Delegating name n" w item]
  have "\<exists>w1 w2. remove_item (logging INFO (Delegating name n) w) item (PyInt n) = Inr w1 \<and>
     remove_item w item (PyInt n) = Inr w2 \<and> stock_data w1 = stock_data w2 \<and> files w1 = files w2" .
  ultimately show ?thesis
    by auto
qed

theorem add_negative_is_remove_witness:
  "(0::int) < 2 \<and>
   (\<exists>w1 w2.
      add_item
        \<lparr>stock_data = DAList.update ''banana'' 8 DAList.empty, files = [], records = []\<rparr>
        (PyStr ''banana'') (PyInt (- 2)) = Inr w1 \<and>
      remove_item
        \<lparr>stock_data = DAList.update ''banana'' 8 DAList.empty, files = [], records = []\<rparr>
        (PyStr ''banana'') (PyInt 2) = Inr w2 \<and>
      stock_data w1 = stock_data w2 \<and> files w1 = files w2)"
proof -
  have h: "(0::int) < 2" by simp
  from add_negative_is_remove [OF h] h show ?thesis by blast
qed

subsection \<open>The coercion of the quantity\<close>




subsection \<open>Persistence\<close>

text \<open>
  C6. For every state and every path that can be written, \<^verbatim>\<open>save_data(path)\<close> returns
  normally and does not change the mapping, and a \<^verbatim>\<open>load_data(path)\<close> that follows it
  returns normally with the mapping that was saved. The loaded mapping comes from the
  file: the load may start from any state in which the files are the ones the save left,
  whatever its mapping and its log are (\<^verbatim>\<open>main\<close> clears the mapping between the two
  calls).
\<close>

theorem save_then_load:
  "map_of (files w) file_path \<noteq> Some Inaccessible \<Longrightarrow>
   \<exists>w1. save_data w file_path = Inr w1 \<and> stock_data w1 = stock_data w \<and>
     map_of (files w1) file_path = Some (Document (stock_data w)) \<and>
     (\<forall>v. files v = files w1 \<longrightarrow>
        (\<exists>w2. load_data v file_path = Inr w2 \<and> stock_data w2 = stock_data w \<and>
           files w2 = files w1))"
  by (simp add: save_data_writes load_data_cases stock_data_logging files_logging update_conv')

theorem save_then_load_witness:
  "map_of (files
     \<lparr>stock_data = DAList.update ''apple'' 7 DAList.empty, files = [], records = []\<rparr>)
     ''inventory.json'' \<noteq> Some Inaccessible \<and>
   (\<exists>w1.
      save_data
        \<lparr>stock_data = DAList.update ''apple'' 7 DAList.empty, files = [], records = []\<rparr>
        ''inventory.json'' = Inr w1 \<and>
      files (w1\<lparr>stock_data := DAList.empty\<rparr>) = files w1 \<and>
      (\<exists>w2. load_data (w1\<lparr>stock_data := DAList.empty\<rparr>) ''inventory.json'' = Inr w2 \<and>
         stock_data w2 = DAList.update ''apple'' 7 DAList.empty))"
proof -
  let ?w = "\<lparr>stock_data = DAList.update ''apple'' 7 DAList.empty, files = [], records = []\<rparr>"
  have h: "map_of (files ?w) ''inventory.json'' \<noteq> Some Inaccessible"
    by simp
  from save_then_load [OF h] obtain w1 where
    s: "save_data ?w ''inventory.json'' = Inr w1" and
    l: "\<forall>v. files v = files w1 \<longrightarrow>
        (\<exists>w2. load_data v ''inventory.json'' = Inr w2 \<and> stock_data w2 = stock_data ?w \<and>
           files w2 = files w1)"
    by blast
  have f: "files (w1\<lparr>stock_data := DAList.empty\<rparr>) = files w1"
    by simp
  from l [rule_format, OF f] s f h show ?thesis
    by auto
qed

text \<open>
  C7, as amended. \<^verbatim>\<open>load_data\<close> returns normally for every state of the file system and
  never changes a file. When the file does not exist, when its text is not valid JSON and
  when it cannot be read, the mapping is empty afterwards, a state that satisfies the
  invariant. When the file holds a JSON object, the mapping afterwards is that object as
  it is, so it satisfies the invariant exactly when the object in the file does.
\<close>

theorem load_data_never_raises:
  "\<exists>w'. load_data w file_path = Inr w' \<and> files w' = files w \<and>
     (map_of (files w) file_path = None \<longrightarrow>
        stock_data w' = DAList.empty \<and> positive_stock (stock_data w')) \<and>
     (map_of (files w) file_path = Some Corrupt \<longrightarrow>
        stock_data w' = DAList.empty \<and> positive_stock (stock_data w')) \<and>
     (map_of (files w) file_path = Some Inaccessible \<longrightarrow>
        stock_data w' = DAList.empty \<and> positive_stock (stock_data w')) \<and>
     (\<forall>d. map_of (files w) file_path = Some (Document d) \<longrightarrow>
        stock_data w' = d \<and> (positive_stock (stock_data w') \<longleftrightarrow> positive_stock d))"
  by (simp add: load_data_cases stock_data_logging files_logging positive_stock_empty)

theorem load_data_never_raises_witness:
  "(\<exists>w'. load_data
      \<lparr>stock_data = DAList.update ''apple'' 7 DAList.empty, files = [], records = []\<rparr>
      ''inventory.json'' = Inr w' \<and> stock_data w' = DAList.empty) \<and>
   (\<exists>w'. load_data
      \<lparr>stock_data = DAList.update ''apple'' 7 DAList.empty,
       files = [(''inventory.json'', Corrupt)], records = []\<rparr>
      ''inventory.json'' = Inr w' \<and> stock_data w' = DAList.empty) \<and>
   (\<exists>w'. load_data
      \<lparr>stock_data = DAList.update ''apple'' 7 DAList.empty,
       files = [(''inventory.json'', Inaccessible)], records = []\<rparr>
      ''inventory.json'' = Inr w' \<and> stock_data w' = DAList.empty) \<and>
   (\<exists>w'. load_data
      \<lparr>stock_data = DAList.update ''apple'' 7 DAList.empty,
       files = [(''inventory.json'', Document (DAList.update ''banana'' 6 DAList.empty))],
       records = []\<rparr>
      ''inventory.json'' = Inr w' \<and> stock_data w' = DAList.update ''banana'' 6 DAList.empty)"
proof -
  let ?d = "DAList.update ''apple'' 7 DAList.empty"
  let ?b = "DAList.update ''banana'' 6 DAList.empty"
  from load_data_never_raises [of "\<lparr>stock_data = ?d, files = [], records = []\<rparr>" "''inventory.json''"]
    load_data_never_raises
      [of "\<lparr>stock_data = ?d, files = [(''inventory.json'', Corrupt)], records = []\<rparr>"
        "''inventory.json''"]
    load_data_never_raises
      [of "\<lparr>stock_data = ?d, files = [(''inventory.json'', Inaccessible)], records = []\<rparr>"
        "''inventory.json''"]
    load_data_never_raises
      [of "\<lparr>stock_data = ?d, files = [(''inventory.json'', Document ?b)], records = []\<rparr>"
        "''inventory.json''"]
  show ?thesis by auto
qed

text \<open>
  C7 as stated fails for a file that is read successfully: \<^verbatim>\<open>{"apple": -5}\<close> is valid
  JSON, \<^verbatim>\<open>load_data\<close> returns normally, and the mapping it leaves stores the negative
  quantity -5 for \<^verbatim>\<open>apple\<close>, which is not a valid state of the inventory.
\<close>

theorem load_data_keeps_negative_quantity:
  "load_data
     \<lparr>stock_data = DAList.empty,
      files = [(''inventory.json'', Document (DAList.update ''apple'' (- 5) DAList.empty))],
      records = []\<rparr> ''inventory.json''
   = Inr \<lparr>stock_data = DAList.update ''apple'' (- 5) DAList.empty,
          files = [(''inventory.json'', Document (DAList.update ''apple'' (- 5) DAList.empty))],
          records = [(INFO, Loaded ''inventory.json'')]\<rparr> \<and>
   DAList.lookup (DAList.update ''apple'' (- 5) DAList.empty) ''apple'' = Some (- 5) \<and>
   \<not> positive_stock (DAList.update ''apple'' (- 5) DAList.empty)"
  by (simp add: load_data_def read_json_def logging_def positive_stock_def
        DAList.update.rep_eq DAList.empty.rep_eq)

subsection \<open>Low stock\<close>

text \<open>
  C8. \<^verbatim>\<open>check_low_items(threshold)\<close> is the list of the keys of the mapping, in its
  enumeration order, restricted to those whose quantity is below the threshold: its
  elements are exactly the items stored with a quantity strictly below the threshold, and
  it is empty for the empty mapping. It returns a list and no state: it mutates nothing.
\<close>

theorem check_low_items_exact:
  "check_low_items w threshold =
     filter (\<lambda>name. get_qty w (PyStr name) < threshold) (map fst (DAList.impl_of (stock_data w))) \<and>
   set (check_low_items w threshold) =
     {name. \<exists>qty. DAList.lookup (stock_data w) name = Some qty \<and> qty < threshold} \<and>
   check_low_items (w\<lparr>stock_data := DAList.empty\<rparr>) threshold = []"
proof (intro conjI)
  have "get_qty w (PyStr k) = v" if "(k, v) \<in> set (DAList.impl_of (stock_data w))" for k v
    using that by (simp add: get_qty_def lookup_impl_of [symmetric])
  then show "check_low_items w threshold =
     filter (\<lambda>name. get_qty w (PyStr name) < threshold) (map fst (DAList.impl_of (stock_data w)))"
    unfolding check_low_items_def filter_map
    by (auto simp: comp_def intro!: arg_cong [where f = "map fst"] filter_cong)
  show "set (check_low_items w threshold) =
     {name. \<exists>qty. DAList.lookup (stock_data w) name = Some qty \<and> qty < threshold}"
    by (force simp: check_low_items_def lookup_impl_of)
  show "check_low_items (w\<lparr>stock_data := DAList.empty\<rparr>) threshold = []"
    by (simp add: check_low_items_def DAList.empty.rep_eq)
qed

theorem check_low_items_exact_witness:
  "check_low_items
     \<lparr>stock_data =
        DAList.update ''grape'' 4 (DAList.update ''banana'' 6 (DAList.update ''apple'' 2 DAList.empty)),
      files = [], records = []\<rparr> 5 = [''apple'', ''grape'']"
proof -
  let ?w = "\<lparr>stock_data =
        DAList.update ''grape'' 4 (DAList.update ''banana'' 6 (DAList.update ''apple'' 2 DAList.empty)),
      files = [], records = []\<rparr>"
  from check_low_items_exact [of ?w 5]
  have "check_low_items ?w 5 =
     filter (\<lambda>name. get_qty ?w (PyStr name) < 5) (map fst (DAList.impl_of (stock_data ?w)))"
    by blast
  then show ?thesis
    by (simp add: get_qty_def DAList.update.rep_eq DAList.empty.rep_eq lookup_update)
qed

subsection \<open>Removing an absent item\<close>

text \<open>
  C9. For a valid item name that is absent and a quantity that coerces to a positive
  integer, \<^verbatim>\<open>remove_item\<close> returns normally, leaves the mapping and the files as they
  were (no entry is created), and logs exactly one record, the error that the item was
  not found.
\<close>

theorem remove_absent_noop:
  "item_name item = Some name \<Longrightarrow> DAList.lookup (stock_data w) name = None \<Longrightarrow>
   py_int qty = Inr n \<Longrightarrow> 0 < n \<Longrightarrow>
   \<exists>w'. remove_item w item qty = Inr w' \<and> stock_data w' = stock_data w \<and>
     files w' = files w \<and> records w' = records w @ [(ERROR, NotFound name)]"
  by (simp add: remove_item_absent stock_data_logging files_logging records_logging)

theorem remove_absent_noop_witness:
  "item_name (PyStr ''kiwi'') = Some ''kiwi'' \<and>
   DAList.lookup (stock_data \<lparr>stock_data = DAList.empty, files = [], records = []\<rparr>) ''kiwi''
     = None \<and>
   py_int (PyInt 1) = Inr 1 \<and> (0::int) < 1 \<and>
   (\<exists>w'. remove_item \<lparr>stock_data = DAList.empty, files = [], records = []\<rparr>
      (PyStr ''kiwi'') (PyInt 1) = Inr w' \<and>
      stock_data w' = DAList.empty \<and> records w' = [(ERROR, NotFound ''kiwi'')])"
proof -
  let ?w = "\<lparr>stock_data = DAList.empty, files = [], records = []\<rparr>"
  have h1: "item_name (PyStr ''kiwi'') = Some ''kiwi''"
    by (simp add: item_name_def)
  have h2: "DAList.lookup (stock_data ?w) ''kiwi'' = None"
    by simp
  have h3: "py_int (PyInt 1) = Inr 1"
    by (simp add: py_int_def)
  have h4: "(0::int) < 1"
    by simp
  from remove_absent_noop [OF h1 h2 h3 h4] h1 h2 h3 h4 show ?thesis
    by auto
qed

subsection \<open>The other items\<close>

text \<open>
  C10. For every state, item and quantity, \<^verbatim>\<open>get_qty(k)\<close> is the same after
  \<^verbatim>\<open>add_item(item, qty)\<close> and after \<^verbatim>\<open>remove_item(item, qty)\<close> as before, for every key
  \<open>k\<close> other than \<open>item\<close>. Both calls return normally unless \<^verbatim>\<open>int(qty)\<close> raises
  \<^verbatim>\<open>OverflowError\<close>; the state a call leaves is compared in either case.
\<close>

theorem other_items_unchanged:
  "k \<noteq> item \<Longrightarrow>
   get_qty (state_after (add_item w item qty)) k = get_qty w k \<and>
   get_qty (state_after (remove_item w item qty)) k = get_qty w k \<and>
   (py_int qty \<noteq> Inl OverflowError \<longrightarrow>
      (\<exists>w'. add_item w item qty = Inr w' \<and> get_qty w' k = get_qty w k) \<and>
      (\<exists>w'. remove_item w item qty = Inr w' \<and> get_qty w' k = get_qty w k))"
proof (intro conjI impI)
  assume ne: "k \<noteq> item"
  show a: "get_qty (state_after (add_item w item qty)) k = get_qty w k"
  proof (cases k)
    case (PyStr s)
    have "DAList.lookup (stock_data (state_after (add_item w item qty))) s =
        DAList.lookup (stock_data w) s"
      unfolding add_item_lookup using ne PyStr
      by (auto split: option.splits sum.splits dest: item_name_PyStr)
    with PyStr show ?thesis by (simp add: get_qty_def)
  qed (simp_all add: get_qty_def)
  show r: "get_qty (state_after (remove_item w item qty)) k = get_qty w k"
  proof (cases k)
    case (PyStr s)
    have "DAList.lookup (stock_data (state_after (remove_item w item qty))) s =
        DAList.lookup (stock_data w) s"
      unfolding remove_item_lookup using ne PyStr
      by (auto split: option.splits sum.splits dest: item_name_PyStr)
    with PyStr show ?thesis by (simp add: get_qty_def)
  qed (simp_all add: get_qty_def)
  show "\<exists>w'. add_item w item qty = Inr w' \<and> get_qty w' k = get_qty w k"
    if "py_int qty \<noteq> Inl OverflowError"
    using add_item_total [OF that, of w item] a by (auto simp: state_after_Inr)
  show "\<exists>w'. remove_item w item qty = Inr w' \<and> get_qty w' k = get_qty w k"
    if "py_int qty \<noteq> Inl OverflowError"
    using remove_item_total [OF that, of w item] r by (auto simp: state_after_Inr)
qed

theorem other_items_unchanged_witness:
  "PyStr ''apple'' \<noteq> PyStr ''banana'' \<and>
   (\<exists>w'. add_item
      \<lparr>stock_data = DAList.update ''banana'' 8 (DAList.update ''apple'' 7 DAList.empty),
       files = [], records = []\<rparr> (PyStr ''banana'') (PyInt 3) = Inr w' \<and>
      get_qty w' (PyStr ''apple'') = 7) \<and>
   (\<exists>w'. remove_item
      \<lparr>stock_data = DAList.update ''banana'' 8 (DAList.update ''apple'' 7 DAList.empty),
       files = [], records = []\<rparr> (PyStr ''banana'') (PyInt 3) = Inr w' \<and>
      get_qty w' (PyStr ''apple'') = 7)"
proof -
  let ?w = "\<lparr>stock_data = DAList.update ''banana'' 8 (DAList.update ''apple'' 7 DAList.empty),
       files = [], records = []\<rparr>"
  have h: "PyStr ''apple'' \<noteq> PyStr ''banana''"
    by simp
  have g: "get_qty ?w (PyStr ''apple'') = 7"
    by (simp add: get_qty_def lookup_update)
  have ok: "py_int (PyInt 3) \<noteq> Inl OverflowError"
    by (simp add: py_int_def)
  from other_items_unchanged [OF h, of ?w "PyInt 3"] h g ok show ?thesis
    by simp
qed

end
